theory Spec2Isabelle
  imports Complex_Main
begin

section \<open>Status classification (\<open>show_kpi\<close>, gui11.py lines 154-197)\<close>

text \<open>
  \<open>show_kpi\<close> averages the two gas columns of the displayed table and buckets each
  average. The two averages are computed by pandas (\<open>df["CO2_ppm"].mean()\<close>); they enter
  the model as the real numbers \<open>co2_avg\<close> and \<open>ch4_avg\<close>. The three status strings
  \<open>"Normal"\<close>, \<open>"Waspada"\<close>, \<open>"Tinggi"\<close> are the only values the variables
  \<open>status_co2\<close>, \<open>status_ch4\<close> and \<open>overall_status\<close> ever hold.
\<close>

datatype status = Normal | Waspada | Tinggi

text \<open>Lines 167-172.\<close>

definition status_co2 :: "real \<Rightarrow> status" where
  "status_co2 co2_avg =
     (if co2_avg < 450 then Normal
      else if 450 \<le> co2_avg \<and> co2_avg \<le> 500 then Waspada
      else Tinggi)"

text \<open>Lines 175-180.\<close>

definition status_ch4 :: "real \<Rightarrow> status" where
  "status_ch4 ch4_avg =
     (if ch4_avg < 1950 then Normal
      else if 1950 \<le> ch4_avg \<and> ch4_avg \<le> 2000 then Waspada
      else Tinggi)"

text \<open>Line 182: the dictionary \<open>{"Normal": 1, "Waspada": 2, "Tinggi": 3}\<close>.\<close>

fun status_levels :: "status \<Rightarrow> nat" where
  "status_levels Normal = 1"
| "status_levels Waspada = 2"
| "status_levels Tinggi = 3"

text \<open>
  Python's \<open>max(xs, key=k)\<close> on a non-empty list \<open>x # xs\<close>: the first element whose key
  is maximal, found by a left-to-right scan that replaces the candidate only by an
  element with a strictly larger key.
\<close>

definition py_max_key :: "('a \<Rightarrow> nat) \<Rightarrow> 'a \<Rightarrow> 'a list \<Rightarrow> 'a" where
  "py_max_key k x xs = foldl (\<lambda>m e. if k m < k e then e else m) x xs"

text \<open>Lines 183-184: \<open>max([status_co2, status_ch4], key=lambda x: status_levels[x])\<close>.\<close>

definition overall_status :: "status \<Rightarrow> status \<Rightarrow> status" where
  "overall_status s_co2 s_ch4 = py_max_key status_levels s_co2 [s_ch4]"

text \<open>
  Lines 163-188 as a function of the two averages: the CO2 status, the CH4 status and
  the combined status that the label shows.
\<close>

definition show_kpi :: "real \<Rightarrow> real \<Rightarrow> status \<times> status \<times> status" where
  "show_kpi co2_avg ch4_avg =
     (let s_co2 = status_co2 co2_avg;
          s_ch4 = status_ch4 ch4_avg
      in (s_co2, s_ch4, overall_status s_co2 s_ch4))"

section \<open>Python values and errors\<close>

text \<open>
  The exceptions the modelled lines can raise. Inside \<open>get_air_quality_data\<close> every one
  of them is caught by \<open>except Exception\<close> (line 58); in the view callbacks nothing
  catches them.
\<close>

datatype py_error =
  RequestException | JSONDecodeError | KeyError | TypeError | ValueError | AttributeError

text \<open>
  A parsed JSON value as \<open>resp.json()\<close> returns it. An object is the association list
  of a Python \<open>dict\<close>; a key is bound to the value of its first pair.
\<close>

datatype json =
  JNull | JBool bool | JNum real | JStr string | JArr "json list" | JObj "(string \<times> json) list"

definition py_bind :: "'e + 'a \<Rightarrow> ('a \<Rightarrow> 'e + 'b) \<Rightarrow> 'e + 'b" where
  "py_bind m f = (case m of Inl e \<Rightarrow> Inl e | Inr x \<Rightarrow> f x)"

fun py_substr :: "string \<Rightarrow> string \<Rightarrow> bool" where
  "py_substr k [] = (k = [])"
| "py_substr k (c # s) = (take (length k) (c # s) = k \<or> py_substr k s)"

text \<open>
  \<open>k in v\<close> for a string \<open>k\<close>: key membership in a dict, element membership in a list,
  substring test in a string, and \<open>TypeError\<close> for \<open>None\<close>, a bool or a number.
\<close>

fun py_in :: "string \<Rightarrow> json \<Rightarrow> py_error + bool" where
  "py_in k (JObj kvs) = Inr (k \<in> fst ` set kvs)"
| "py_in k (JArr xs) = Inr (JStr k \<in> set xs)"
| "py_in k (JStr s) = Inr (py_substr k s)"
| "py_in k JNull = Inl TypeError"
| "py_in k (JBool b) = Inl TypeError"
| "py_in k (JNum x) = Inl TypeError"

text \<open>
  \<open>v[k]\<close> for a string \<open>k\<close>: the bound value or \<open>KeyError\<close> on a dict, \<open>TypeError\<close> on
  every other value (a list or a string wants an integer index, the rest is not
  subscriptable).
\<close>

fun py_getitem :: "json \<Rightarrow> string \<Rightarrow> py_error + json" where
  "py_getitem (JObj kvs) k = (case map_of kvs k of None \<Rightarrow> Inl KeyError | Some v \<Rightarrow> Inr v)"
| "py_getitem (JArr xs) k = Inl TypeError"
| "py_getitem (JStr s) k = Inl TypeError"
| "py_getitem JNull k = Inl TypeError"
| "py_getitem (JBool b) k = Inl TypeError"
| "py_getitem (JNum x) k = Inl TypeError"

section \<open>The pandas tables the program builds\<close>

text \<open>
  A timestamp is what a \<open>datetime64[ns]\<close> column stores: the nanoseconds since
  1970-01-01 00:00 (no time zone). A calendar date is its day number since 1970-01-01,
  so \<open>.dt.date\<close> is the floor division by the nanoseconds of one day, and two dates, or
  two timestamps, compare as these integers do. \<open>datetime.now()\<close> enters the model as
  a timestamp and \<open>datetime.now().date()\<close> as a date.
\<close>

type_synonym timestamp = int
type_synonym pydate = int

definition date_of :: "timestamp \<Rightarrow> pydate" where
  "date_of t = t div 86400000000000"

text \<open>
  A column is either datetime-typed (built from the \<open>DatetimeIndex\<close> that
  \<open>pd.to_datetime\<close> returns for a list) or holds the values of a plain Python list as
  pandas stores them; a column built from the empty list \<open>[]\<close> is of the second kind.
  A table is the list of its named columns, in the order of the dict it was built from.
  The row labels (the index) are left out: \<open>to_csv\<close> is called with \<open>index=False\<close>
  and no other line reads them.
\<close>

datatype column = DatetimeCol "timestamp list" | ValueCol "json list"

type_synonym frame = "(string \<times> column) list"

fun col_len :: "column \<Rightarrow> nat" where
  "col_len (DatetimeCol ts) = length ts"
| "col_len (ValueCol vs) = length vs"

text \<open>\<open>len(df)\<close>: the number of rows; \<open>df.empty\<close> holds when it is 0 (or no column exists).\<close>

fun nrows :: "frame \<Rightarrow> nat" where
  "nrows [] = 0"
| "nrows ((name, c) # df) = col_len c"

definition df_empty :: "frame \<Rightarrow> bool" where
  "df_empty df = (df = [] \<or> nrows df = 0)"

text \<open>
  What the program takes from pandas without fixing it itself:
  \<^item> \<open>parse_time\<close>: how \<open>pd.to_datetime\<close> reads one element of a list (\<open>None\<close>: it
    raises; the missing value \<open>NaT\<close> is not modelled);
  \<^item> \<open>nonlist_columns\<close>: the three columns that \<open>pd.to_datetime\<close> and \<open>pd.DataFrame\<close>
    make of the fields \<open>time\<close>, \<open>carbon_dioxide\<close>, \<open>methane\<close> when not all three are
    lists (scalars are broadcast, dicts are aligned, or an exception is raised);
  \<^item> \<open>str_time\<close>, \<open>str_value\<close>: the text \<open>to_csv\<close> writes for one cell, quoted where
    the CSV dialect asks for it.
  Every theorem below holds for every choice of these four.
\<close>

record pandas =
  parse_time :: "json \<Rightarrow> timestamp option"
  nonlist_columns :: "json \<Rightarrow> json \<Rightarrow> json \<Rightarrow> py_error + (column \<times> column \<times> column)"
  str_time :: "timestamp \<Rightarrow> string"
  str_value :: "json \<Rightarrow> string"

text \<open>\<open>pd.to_datetime(xs)\<close> on a list: element by element, raising when one does not parse.\<close>

fun to_datetime :: "(json \<Rightarrow> timestamp option) \<Rightarrow> json list \<Rightarrow> py_error + timestamp list" where
  "to_datetime parse [] = Inr []"
| "to_datetime parse (x # xs) =
     (case parse x of
        None \<Rightarrow> Inl ValueError
      | Some t \<Rightarrow> py_bind (to_datetime parse xs) (\<lambda>ts. Inr (t # ts)))"

text \<open>
  \<open>pd.DataFrame(d)\<close> on a dict of one-dimensional arrays: pandas collects the set of
  their lengths and raises \<open>ValueError\<close> ("All arrays must be of the same length") when
  it has more than one member.
\<close>

definition DataFrame :: "(string \<times> column) list \<Rightarrow> py_error + frame" where
  "DataFrame d =
     (if 1 < length (remdups (map (\<lambda>(name, c). col_len c) d)) then Inl ValueError
      else Inr d)"

text \<open>Lines 53 and 59: \<open>pd.DataFrame({"Waktu": [], "CO2_ppm": [], "CH4_ppb": []})\<close>.\<close>

definition empty_frame :: frame where
  "empty_frame = [(''Waktu'', ValueCol []), (''CO2_ppm'', ValueCol []), (''CH4_ppb'', ValueCol [])]"

section \<open>The fetcher (\<open>get_air_quality_data\<close>, lines 31-59)\<close>

text \<open>
  The outcome of lines 50-51: \<open>requests.get\<close> raises (no connection, timeout),
  \<open>resp.json()\<close> raises (the body is not JSON), or \<open>data\<close> is the parsed body.
  An HTTP error status does not raise; its body is parsed like any other.
\<close>

datatype response = TransportError | BadBody | Body json

text \<open>
  Lines 54-57 on the three looked-up fields. For three lists: the \<open>time\<close> list is
  parsed and the table is built from the \<open>DatetimeIndex\<close> and the two lists as they
  are.
\<close>

fun hourly_frame :: "pandas \<Rightarrow> json \<Rightarrow> json \<Rightarrow> json \<Rightarrow> py_error + frame" where
  "hourly_frame pd (JArr time) (JArr co2) (JArr ch4) =
     py_bind (to_datetime (parse_time pd) time) (\<lambda>times.
       DataFrame [(''Waktu'', DatetimeCol times), (''CO2_ppm'', ValueCol co2),
                  (''CH4_ppb'', ValueCol ch4)])"
| "hourly_frame pd time co2 ch4 =
     py_bind (nonlist_columns pd time co2 ch4) (\<lambda>(w, c, m).
       Inr [(''Waktu'', w), (''CO2_ppm'', c), (''CH4_ppb'', m)])"

text \<open>
  The body of the \<open>try\<close> block, lines 50-57. The source parses \<open>time\<close> (line 54) before
  it looks up the two gas fields (lines 55-56); every exception of the block ends in
  the same handler, so which of them is raised first cannot be observed.
\<close>

definition try_body :: "pandas \<Rightarrow> response \<Rightarrow> py_error + frame" where
  "try_body pd resp =
     (case resp of
        TransportError \<Rightarrow> Inl RequestException
      | BadBody \<Rightarrow> Inl JSONDecodeError
      | Body data \<Rightarrow>
          py_bind (py_in ''hourly'' data) (\<lambda>has_hourly.
            if \<not> has_hourly then Inr empty_frame
            else
              py_bind (py_getitem data ''hourly'') (\<lambda>hourly.
              py_bind (py_getitem hourly ''time'') (\<lambda>time.
              py_bind (py_getitem hourly ''carbon_dioxide'') (\<lambda>co2.
              py_bind (py_getitem hourly ''methane'') (\<lambda>ch4.
                hourly_frame pd time co2 ch4))))))"

text \<open>Lines 49-59: \<open>except Exception\<close> turns every exception into the empty table.\<close>

definition get_air_quality_data :: "pandas \<Rightarrow> response \<Rightarrow> frame" where
  "get_air_quality_data pd resp =
     (case try_body pd resp of Inl e \<Rightarrow> empty_frame | Inr df \<Rightarrow> df)"

section \<open>The view filters\<close>

text \<open>\<open>df[name]\<close>: the column, or \<open>KeyError\<close>.\<close>

definition getcol :: "frame \<Rightarrow> string \<Rightarrow> py_error + column" where
  "getcol df name = (case map_of df name of None \<Rightarrow> Inl KeyError | Some c \<Rightarrow> Inr c)"

text \<open>
  \<open>column.dt.date\<close>: the \<open>.dt\<close> accessor exists on datetime-typed columns only; on any
  other column pandas raises \<open>AttributeError\<close> ("Can only use .dt accessor with
  datetimelike values").
\<close>

fun dt_date :: "column \<Rightarrow> py_error + pydate list" where
  "dt_date (DatetimeCol ts) = Inr (map date_of ts)"
| "dt_date (ValueCol vs) = Inl AttributeError"

text \<open>
  \<open>column > now\<close>: element by element. A number, string, \<open>None\<close>, list or dict against a
  \<open>datetime\<close> is a \<open>TypeError\<close>; with no element nothing is compared.
\<close>

fun col_gt :: "column \<Rightarrow> timestamp \<Rightarrow> py_error + bool list" where
  "col_gt (DatetimeCol ts) now = Inr (map (\<lambda>t. now < t) ts)"
| "col_gt (ValueCol vs) now = (if vs = [] then Inr [] else Inl TypeError)"

text \<open>\<open>df[mask]\<close>: every column keeps the entries at the positions where the mask is true.\<close>

definition keep :: "bool list \<Rightarrow> 'a list \<Rightarrow> 'a list" where
  "keep flags xs = map snd (filter fst (zip flags xs))"

fun col_keep :: "bool list \<Rightarrow> column \<Rightarrow> column" where
  "col_keep flags (DatetimeCol ts) = DatetimeCol (keep flags ts)"
| "col_keep flags (ValueCol vs) = ValueCol (keep flags vs)"

definition mask_rows :: "frame \<Rightarrow> bool list \<Rightarrow> frame" where
  "mask_rows df flags = map (\<lambda>(name, c). (name, col_keep flags c)) df"

text \<open>Realtime view, \<open>update_graph\<close> line 265: \<open>df[df["Waktu"].dt.date == today]\<close>.\<close>

definition df_today :: "pydate \<Rightarrow> frame \<Rightarrow> py_error + frame" where
  "df_today today df =
     py_bind (getcol df ''Waktu'') (\<lambda>waktu.
     py_bind (dt_date waktu) (\<lambda>dates.
       Inr (mask_rows df (map (\<lambda>d. d = today) dates))))"

text \<open>Forecast view, \<open>update_forecast\<close> line 306: \<open>df[df["Waktu"] > now]\<close>.\<close>

definition df_forecast :: "timestamp \<Rightarrow> frame \<Rightarrow> py_error + frame" where
  "df_forecast now df =
     py_bind (getcol df ''Waktu'') (\<lambda>waktu.
     py_bind (col_gt waktu now) (\<lambda>flags.
       Inr (mask_rows df flags)))"

text \<open>
  Period view, \<open>ambil_data\<close> lines 389-390:
  \<open>df[(df["Waktu"].dt.date >= start_date) & (df["Waktu"].dt.date <= end_date)]\<close>.
\<close>

definition df_period :: "pydate \<Rightarrow> pydate \<Rightarrow> frame \<Rightarrow> py_error + frame" where
  "df_period start_date end_date df =
     py_bind (getcol df ''Waktu'') (\<lambda>waktu.
     py_bind (dt_date waktu) (\<lambda>dates.
     py_bind (getcol df ''Waktu'') (\<lambda>waktu'.
     py_bind (dt_date waktu') (\<lambda>dates'.
       Inr (mask_rows df
              (map2 (\<and>) (map (\<lambda>d. start_date \<le> d) dates)
                         (map (\<lambda>d. d \<le> end_date) dates')))))))"

section \<open>CSV export (\<open>add_save_button\<close>, lines 203-227)\<close>

fun csv_line :: "string list \<Rightarrow> string" where
  "csv_line [] = []"
| "csv_line [cell] = cell"
| "csv_line (cell # cells) = cell @ '','' @ csv_line cells"

fun col_cells :: "pandas \<Rightarrow> column \<Rightarrow> string list" where
  "col_cells pd (DatetimeCol ts) = map (str_time pd) ts"
| "col_cells pd (ValueCol vs) = map (str_value pd) vs"

text \<open>
  \<open>df.to_csv(file_path, index=False)\<close> as the list of the lines it writes: the column
  names, then the cells of row 0, row 1, ... in column order.
\<close>

definition to_csv :: "pandas \<Rightarrow> frame \<Rightarrow> string list" where
  "to_csv pd df =
     csv_line (map fst df) #
     map (\<lambda>i. csv_line (map (\<lambda>(name, c). col_cells pd c ! i) df)) [0..<nrows df]"

text \<open>
  \<open>save_csv\<close>, lines 209-216: the file is written only when the dialog returned a
  path (an empty string means the user cancelled).
\<close>

definition save_csv :: "pandas \<Rightarrow> string \<Rightarrow> frame \<Rightarrow> string list option" where
  "save_csv pd file_path df = (if file_path \<noteq> [] then Some (to_csv pd df) else None)"

section \<open>Tables as lists of readings\<close>

text \<open>
  A reading is one row of a fetched table: the timestamp, the CO2 value and the CH4
  value. \<open>series_of rs\<close> is the table with datetime-typed \<open>Waktu\<close> column whose rows are
  the readings \<open>rs\<close>, in their order; it is the form in which the theorems speak of
  the rows a view keeps.
\<close>

type_synonym reading = "timestamp \<times> json \<times> json"

definition series_of :: "reading list \<Rightarrow> frame" where
  "series_of rs =
     [(''Waktu'', DatetimeCol (map fst rs)),
      (''CO2_ppm'', ValueCol (map (\<lambda>r. fst (snd r)) rs)),
      (''CH4_ppb'', ValueCol (map (\<lambda>r. snd (snd r)) rs))]"

text \<open>The line \<open>to_csv\<close> writes for one reading.\<close>

definition row_line :: "pandas \<Rightarrow> reading \<Rightarrow> string" where
  "row_line pd r = csv_line [str_time pd (fst r), str_value pd (fst (snd r)), str_value pd (snd (snd r))]"

text \<open>
  One choice of the pandas parameters, for the worked examples: a JSON number is read
  as a count of nanoseconds, everything that is not three lists is refused, and the
  cells are written as the fixed texts \<open>t\<close> and \<open>v\<close>.
\<close>

definition sample_pandas :: pandas where
  "sample_pandas =
     \<lparr>parse_time = (\<lambda>j. case j of JNum x \<Rightarrow> Some \<lfloor>x\<rfloor> | _ \<Rightarrow> None),
      nonlist_columns = (\<lambda>time co2 ch4. Inl TypeError),
      str_time = (\<lambda>t. ''t''),
      str_value = (\<lambda>v. ''v'')\<rparr>"

section \<open>Properties of the classifier\<close>

lemma overall_status_level:
  "status_levels (overall_status a b) = max (status_levels a) (status_levels b)"
  by (simp add: overall_status_def py_max_key_def max_def)

lemma status_co2_mono:
  "x \<le> y \<Longrightarrow> status_levels (status_co2 x) \<le> status_levels (status_co2 y)"
  by (simp add: status_co2_def)

lemma status_ch4_mono:
  "x \<le> y \<Longrightarrow> status_levels (status_ch4 x) \<le> status_levels (status_ch4 y)"
  by (simp add: status_ch4_def)

text \<open>
  C3. The CO2 status that \<open>show_kpi\<close> computes is Normal for an average below 450 ppm,
  Waspada for an average from 450 to 500 ppm (both ends included), and Tinggi for an
  average above 500 ppm, whatever the CH4 average is.
\<close>

theorem co2_status_buckets:
  "(co2_avg < 450 \<longrightarrow> fst (show_kpi co2_avg ch4_avg) = Normal) \<and>
   (450 \<le> co2_avg \<and> co2_avg \<le> 500 \<longrightarrow> fst (show_kpi co2_avg ch4_avg) = Waspada) \<and>
   (500 < co2_avg \<longrightarrow> fst (show_kpi co2_avg ch4_avg) = Tinggi)"
  by (simp add: show_kpi_def status_co2_def Let_def)

theorem co2_status_buckets_witness:
  "fst (show_kpi 449 0) = Normal \<and> fst (show_kpi 450 0) = Waspada \<and>
   fst (show_kpi 500 0) = Waspada \<and> fst (show_kpi 501 0) = Tinggi"
  using co2_status_buckets [of 449 0] co2_status_buckets [of 450 0]
    co2_status_buckets [of 500 0] co2_status_buckets [of 501 0]
  by simp

text \<open>
  C10. The CH4 status that \<open>show_kpi\<close> computes is Normal for an average below 1950 ppb,
  Waspada for an average from 1950 to 2000 ppb (both ends included), and Tinggi for an
  average above 2000 ppb, whatever the CO2 average is.
\<close>

theorem ch4_status_buckets:
  "(ch4_avg < 1950 \<longrightarrow> fst (snd (show_kpi co2_avg ch4_avg)) = Normal) \<and>
   (1950 \<le> ch4_avg \<and> ch4_avg \<le> 2000 \<longrightarrow> fst (snd (show_kpi co2_avg ch4_avg)) = Waspada) \<and>
   (2000 < ch4_avg \<longrightarrow> fst (snd (show_kpi co2_avg ch4_avg)) = Tinggi)"
  by (simp add: show_kpi_def status_ch4_def Let_def)

theorem ch4_status_buckets_witness:
  "fst (snd (show_kpi 0 1949)) = Normal \<and> fst (snd (show_kpi 0 1950)) = Waspada \<and>
   fst (snd (show_kpi 0 2000)) = Waspada \<and> fst (snd (show_kpi 0 2001)) = Tinggi"
  using ch4_status_buckets [of 1949 0] ch4_status_buckets [of 1950 0]
    ch4_status_buckets [of 2000 0] ch4_status_buckets [of 2001 0]
  by simp

text \<open>
  C4. The combined status is one of the two per-gas statuses and its rank is the larger
  of their two ranks (Normal 1, Waspada 2, Tinggi 3); this holds for every pair of
  statuses and for the statuses \<open>show_kpi\<close> computes from any two averages. At the
  averages 460 ppm and 1000 ppb the result is Waspada, Normal, combined Waspada.
\<close>

theorem combined_status_is_higher:
  "status_levels (overall_status a b) = max (status_levels a) (status_levels b) \<and>
   (overall_status a b = a \<or> overall_status a b = b) \<and>
   snd (snd (show_kpi co2_avg ch4_avg)) =
     overall_status (fst (show_kpi co2_avg ch4_avg)) (fst (snd (show_kpi co2_avg ch4_avg))) \<and>
   show_kpi 460 1000 = (Waspada, Normal, Waspada)"
proof -
  have ex: "show_kpi 460 1000 = (Waspada, Normal, Waspada)"
    by (simp add: show_kpi_def status_co2_def status_ch4_def overall_status_def
        py_max_key_def Let_def)
  have pick: "overall_status a b = a \<or> overall_status a b = b"
    by (simp add: overall_status_def py_max_key_def)
  have proj: "snd (snd (show_kpi co2_avg ch4_avg)) =
     overall_status (fst (show_kpi co2_avg ch4_avg)) (fst (snd (show_kpi co2_avg ch4_avg)))"
    by (simp add: show_kpi_def Let_def)
  from overall_status_level ex pick proj show ?thesis by blast
qed

text \<open>
  C5. Raising the CO2 average with the CH4 average fixed, or the CH4 average with the
  CO2 average fixed, never gives a combined status of lower rank.
\<close>

theorem combined_status_monotonic:
  "(co2 \<le> co2' \<longrightarrow>
      status_levels (snd (snd (show_kpi co2 ch4))) \<le> status_levels (snd (snd (show_kpi co2' ch4)))) \<and>
   (ch4 \<le> ch4' \<longrightarrow>
      status_levels (snd (snd (show_kpi co2 ch4))) \<le> status_levels (snd (snd (show_kpi co2 ch4'))))"
proof (intro conjI impI)
  assume "co2 \<le> co2'"
  from status_co2_mono [OF this]
  show "status_levels (snd (snd (show_kpi co2 ch4))) \<le> status_levels (snd (snd (show_kpi co2' ch4)))"
    by (simp add: show_kpi_def Let_def overall_status_level)
next
  assume "ch4 \<le> ch4'"
  from status_ch4_mono [OF this]
  show "status_levels (snd (snd (show_kpi co2 ch4))) \<le> status_levels (snd (snd (show_kpi co2 ch4')))"
    by (simp add: show_kpi_def Let_def overall_status_level)
qed

theorem combined_status_monotonic_witness:
  "status_levels (snd (snd (show_kpi 440 1000))) \<le> status_levels (snd (snd (show_kpi 460 1000))) \<and>
   status_levels (snd (snd (show_kpi 440 1000))) \<le> status_levels (snd (snd (show_kpi 440 1960)))"
  using combined_status_monotonic [of 440 460 1000 1960]
  by simp

section \<open>Auxiliary facts about errors, masks and tables\<close>

lemma py_bind_Inl [simp]: "py_bind (Inl e) f = Inl e"
  by (simp add: py_bind_def)

lemma py_bind_Inr [simp]: "py_bind (Inr x) f = f x"
  by (simp add: py_bind_def)

lemma keep_Nil [simp]: "keep [] xs = []"
  by (simp add: keep_def)

lemma keep_Nil2 [simp]: "keep flags [] = []"
  by (simp add: keep_def)

lemma keep_Cons [simp]:
  "keep (b # flags) (x # xs) = (if b then x # keep flags xs else keep flags xs)"
  by (simp add: keep_def)

lemma keep_map_filter: "keep (map Q rs) (map g rs) = map g (filter Q rs)"
  by (induction rs) simp_all

lemma keep_self: "keep (map P xs) xs = filter P xs"
  using keep_map_filter [of P xs "\<lambda>x. x"] by simp

lemma keep_twice:
  "keep (map P (filter P ts)) (keep (map P ts) ys) = keep (map P ts) ys"
proof (induction ts arbitrary: ys)
  case Nil
  then show ?case by simp
next
  case (Cons t ts)
  then show ?case by (cases ys) simp_all
qed

lemma col_keep_twice:
  "col_keep (map P (filter P ts)) (col_keep (map P ts) c) = col_keep (map P ts) c"
  by (cases c) (simp_all add: keep_twice)

lemma mask_rows_twice:
  "mask_rows (mask_rows df (map P ts)) (map P (filter P ts)) = mask_rows df (map P ts)"
  by (induction df) (auto simp: mask_rows_def col_keep_twice)

lemma getcol_mask_rows:
  "getcol (mask_rows df flags) name = py_bind (getcol df name) (\<lambda>c. Inr (col_keep flags c))"
  by (simp add: getcol_def mask_rows_def map_of_map split: option.splits)

lemma names_mask_rows [simp]: "map fst (mask_rows df flags) = map fst df"
  by (induction df) (auto simp: mask_rows_def)


lemma map2_conj: "map2 (\<and>) (map A xs) (map B xs) = map (\<lambda>x. A x \<and> B x) xs"
  by (induction xs) simp_all

lemma getcol_kept:
  assumes "getcol df ''Waktu'' = Inr (DatetimeCol ts)"
  shows "getcol (mask_rows df (map P ts)) ''Waktu'' = Inr (DatetimeCol (filter P ts))"
  using assms by (simp add: getcol_mask_rows keep_self)

lemma df_today_datetime:
  assumes "getcol df ''Waktu'' = Inr (DatetimeCol ts)"
  shows "df_today today df = Inr (mask_rows df (map (\<lambda>t. date_of t = today) ts))"
  using assms by (simp add: df_today_def comp_def)

lemma df_forecast_datetime:
  assumes "getcol df ''Waktu'' = Inr (DatetimeCol ts)"
  shows "df_forecast now df = Inr (mask_rows df (map (\<lambda>t. now < t) ts))"
  using assms by (simp add: df_forecast_def)

lemma df_period_datetime:
  assumes "getcol df ''Waktu'' = Inr (DatetimeCol ts)"
  shows "df_period start_date end_date df =
    Inr (mask_rows df (map (\<lambda>t. start_date \<le> date_of t \<and> date_of t \<le> end_date) ts))"
  using assms by (simp add: df_period_def map2_conj comp_def)

lemma df_today_Inr:
  assumes "df_today today df = Inr df'"
  shows "\<exists>ts. getcol df ''Waktu'' = Inr (DatetimeCol ts)"
proof (cases "getcol df ''Waktu''")
  case (Inl e)
  with assms show ?thesis by (simp add: df_today_def)
next
  case (Inr c)
  with assms show ?thesis by (cases c) (simp_all add: df_today_def)
qed

lemma df_period_Inr:
  assumes "df_period start_date end_date df = Inr df'"
  shows "\<exists>ts. getcol df ''Waktu'' = Inr (DatetimeCol ts)"
proof (cases "getcol df ''Waktu''")
  case (Inl e)
  with assms show ?thesis by (simp add: df_period_def)
next
  case (Inr c)
  with assms show ?thesis by (cases c) (simp_all add: df_period_def)
qed

lemma df_today_idem:
  assumes "df_today today df = Inr df'"
  shows "df_today today df' = Inr df'"
proof -
  from df_today_Inr [OF assms] obtain ts where w: "getcol df ''Waktu'' = Inr (DatetimeCol ts)"
    by blast
  let ?P = "\<lambda>t. date_of t = today"
  from assms df_today_datetime [OF w] have df': "df' = mask_rows df (map ?P ts)"
    by simp
  from getcol_kept [OF w] df' have "getcol df' ''Waktu'' = Inr (DatetimeCol (filter ?P ts))"
    by simp
  from df_today_datetime [OF this] show ?thesis
    by (simp add: df' mask_rows_twice)
qed

lemma df_period_idem:
  assumes "df_period start_date end_date df = Inr df'"
  shows "df_period start_date end_date df' = Inr df'"
proof -
  from df_period_Inr [OF assms] obtain ts where w: "getcol df ''Waktu'' = Inr (DatetimeCol ts)"
    by blast
  let ?P = "\<lambda>t. start_date \<le> date_of t \<and> date_of t \<le> end_date"
  from assms df_period_datetime [OF w] have df': "df' = mask_rows df (map ?P ts)"
    by simp
  from getcol_kept [OF w] df' have "getcol df' ''Waktu'' = Inr (DatetimeCol (filter ?P ts))"
    by simp
  from df_period_datetime [OF this] show ?thesis
    by (simp add: df' mask_rows_twice)
qed

lemma col_keep_Nil_twice: "col_keep [] (col_keep [] c) = col_keep [] c"
  by (cases c) simp_all

lemma mask_rows_Nil_twice: "mask_rows (mask_rows df []) [] = mask_rows df []"
  by (induction df) (auto simp: mask_rows_def col_keep_Nil_twice)

lemma df_forecast_idem:
  assumes "df_forecast now df = Inr df'"
  shows "df_forecast now df' = Inr df'"
proof (cases "getcol df ''Waktu''")
  case (Inl e)
  with assms show ?thesis by (simp add: df_forecast_def)
next
  case (Inr c)
  show ?thesis
  proof (cases c)
    case (DatetimeCol ts)
    let ?P = "\<lambda>t. now < t"
    from Inr DatetimeCol have w: "getcol df ''Waktu'' = Inr (DatetimeCol ts)" by simp
    from assms df_forecast_datetime [OF w] have df': "df' = mask_rows df (map ?P ts)"
      by simp
    from getcol_kept [OF w] df' have "getcol df' ''Waktu'' = Inr (DatetimeCol (filter ?P ts))"
      by simp
    from df_forecast_datetime [OF this] show ?thesis
      by (simp add: df' mask_rows_twice)
  next
    case (ValueCol vs)
    with assms Inr have vs: "vs = []" and df': "df' = mask_rows df []"
      by (simp_all add: df_forecast_def split: if_splits)
    from Inr ValueCol vs have "getcol df' ''Waktu'' = Inr (ValueCol [])"
      by (simp add: df' getcol_mask_rows)
    then show ?thesis
      by (simp add: df_forecast_def df' mask_rows_Nil_twice)
  qed
qed

lemma getcol_series_of [simp]: "getcol (series_of rs) ''Waktu'' = Inr (DatetimeCol (map fst rs))"
  by (simp add: getcol_def series_of_def)

lemma mask_rows_series_of: "mask_rows (series_of rs) (map Q rs) = series_of (filter Q rs)"
  by (simp add: mask_rows_def series_of_def keep_map_filter)

lemma df_today_series:
  "df_today today (series_of rs) = Inr (series_of (filter (\<lambda>r. date_of (fst r) = today) rs))"
  by (simp add: df_today_datetime [OF getcol_series_of] mask_rows_series_of comp_def)

lemma df_forecast_series:
  "df_forecast now (series_of rs) = Inr (series_of (filter (\<lambda>r. now < fst r) rs))"
  by (simp add: df_forecast_datetime [OF getcol_series_of] mask_rows_series_of comp_def)

lemma df_period_series:
  "df_period start_date end_date (series_of rs) =
     Inr (series_of (filter (\<lambda>r. start_date \<le> date_of (fst r) \<and> date_of (fst r) \<le> end_date) rs))"
  by (simp add: df_period_datetime [OF getcol_series_of] mask_rows_series_of comp_def)


lemma to_datetime_all:
  "list_all (\<lambda>x. parse x \<noteq> None) xs \<Longrightarrow> to_datetime parse xs = Inr (map (\<lambda>x. the (parse x)) xs)"
  by (induction xs) auto

lemma to_datetime_fails:
  "\<not> list_all (\<lambda>x. parse x \<noteq> None) xs \<Longrightarrow> to_datetime parse xs = Inl ValueError"
  by (induction xs) (auto split: option.splits)

lemma DataFrame3:
  "DataFrame [(a, x), (b, y), (c, z)] =
     (if col_len x = col_len y \<and> col_len y = col_len z then Inr [(a, x), (b, y), (c, z)]
      else Inl ValueError)"
  by (auto simp: DataFrame_def)

lemma series_of_zip:
  assumes "length ts = length cs" and "length cs = length ms"
  shows "series_of (zip ts (zip cs ms)) =
    [(''Waktu'', DatetimeCol ts), (''CO2_ppm'', ValueCol cs), (''CH4_ppb'', ValueCol ms)]"
proof -
  from assms have "map fst (zip ts (zip cs ms)) = ts"
    by simp
  moreover from assms have "map (\<lambda>r. fst (snd r)) (zip ts (zip cs ms)) = cs"
    by (simp add: map_fst_zip map_snd_zip flip: map_map [unfolded comp_def])
  moreover from assms have "map (\<lambda>r. snd (snd r)) (zip ts (zip cs ms)) = ms"
    by (simp add: map_fst_zip map_snd_zip flip: map_map [unfolded comp_def])
  ultimately show ?thesis by (simp add: series_of_def)
qed

lemma hourly_frame_lists:
  "hourly_frame pd (JArr time) (JArr co2) (JArr ch4) =
     (if length time = length co2 \<and> length co2 = length ch4 \<and>
         list_all (\<lambda>x. parse_time pd x \<noteq> None) time
      then Inr (series_of (zip (map (\<lambda>x. the (parse_time pd x)) time) (zip co2 ch4)))
      else Inl ValueError)"
proof (cases "list_all (\<lambda>x. parse_time pd x \<noteq> None) time")
  case True
  then show ?thesis
    by (simp add: to_datetime_all DataFrame3 series_of_zip)
next
  case False
  then show ?thesis
    by (simp add: to_datetime_fails)
qed

lemma try_body_hourly:
  assumes "map_of kvs ''hourly'' = Some hourly"
  shows "try_body pd (Body (JObj kvs)) =
     py_bind (py_getitem hourly ''time'') (\<lambda>time.
     py_bind (py_getitem hourly ''carbon_dioxide'') (\<lambda>co2.
     py_bind (py_getitem hourly ''methane'') (\<lambda>ch4.
       hourly_frame pd time co2 ch4)))"
proof -
  from assms have "(''hourly'', hourly) \<in> set kvs" by (rule map_of_SomeD)
  then have "''hourly'' \<in> fst ` set kvs" by force
  with assms show ?thesis by (simp add: try_body_def)
qed

lemma hourly_frame_names:
  "hourly_frame pd time co2 ch4 = Inr df \<Longrightarrow> map fst df = [''Waktu'', ''CO2_ppm'', ''CH4_ppb'']"
  by (cases "(pd, time, co2, ch4)" rule: hourly_frame.cases)
     (auto simp: py_bind_def DataFrame3 split: sum.splits if_splits)

lemma try_body_names:
  assumes "try_body pd resp = Inr df"
  shows "map fst df = [''Waktu'', ''CO2_ppm'', ''CH4_ppb'']"
proof (cases resp)
  case TransportError
  with assms show ?thesis by (simp add: try_body_def)
next
  case BadBody
  with assms show ?thesis by (simp add: try_body_def)
next
  case (Body data)
  with assms show ?thesis
    by (auto simp: try_body_def py_bind_def empty_frame_def
        split: sum.splits if_splits dest: hourly_frame_names)
qed

lemma get_air_quality_data_names:
  "map fst (get_air_quality_data pd resp) = [''Waktu'', ''CO2_ppm'', ''CH4_ppb'']"
  by (cases "try_body pd resp")
     (simp_all add: get_air_quality_data_def empty_frame_def try_body_names)

lemma df_today_names: "df_today today df = Inr df' \<Longrightarrow> map fst df' = map fst df"
  by (auto simp: df_today_def py_bind_def split: sum.splits)

lemma df_forecast_names: "df_forecast now df = Inr df' \<Longrightarrow> map fst df' = map fst df"
  by (auto simp: df_forecast_def py_bind_def split: sum.splits)

lemma df_period_names: "df_period start_date end_date df = Inr df' \<Longrightarrow> map fst df' = map fst df"
  by (auto simp: df_period_def py_bind_def split: sum.splits)

lemma to_csv_series_of:
  "to_csv pd (series_of rs) = ''Waktu,CO2_ppm,CH4_ppb'' # map (row_line pd) rs"
proof -
  have "map (\<lambda>i. csv_line (map (\<lambda>(name, c). col_cells pd c ! i) (series_of rs))) [0..<length rs]
      = map (row_line pd) rs"
    by (rule nth_equalityI) (simp_all add: series_of_def row_line_def)
  then show ?thesis
    by (simp add: to_csv_def) (simp add: series_of_def)
qed

lemma to_csv_length: "length (to_csv pd df) = Suc (nrows df)"
  by (simp add: to_csv_def)

lemma to_csv_header:
  "map fst df = [''Waktu'', ''CO2_ppm'', ''CH4_ppb''] \<Longrightarrow> hd (to_csv pd df) = ''Waktu,CO2_ppm,CH4_ppb''"
  by (simp add: to_csv_def)

section \<open>The fetcher's results\<close>

text \<open>
  C1. The fetcher returns a table for every input. When the request fails, when the
  body is not JSON, when the JSON object has no \<open>hourly\<close> key, and whenever any line of
  the \<open>try\<close> block raises, the result is one and the same empty table: columns
  \<open>Waktu\<close>, \<open>CO2_ppm\<close>, \<open>CH4_ppb\<close> and no row.
\<close>

theorem fetch_failure_is_empty:
  "get_air_quality_data pd TransportError = empty_frame \<and>
   get_air_quality_data pd BadBody = empty_frame \<and>
   (''hourly'' \<notin> fst ` set kvs \<longrightarrow> get_air_quality_data pd (Body (JObj kvs)) = empty_frame) \<and>
   (\<forall>e. try_body pd resp = Inl e \<longrightarrow> get_air_quality_data pd resp = empty_frame) \<and>
   map fst empty_frame = [''Waktu'', ''CO2_ppm'', ''CH4_ppb''] \<and>
   nrows empty_frame = 0 \<and> df_empty empty_frame"
  by (simp add: get_air_quality_data_def try_body_def empty_frame_def df_empty_def)

theorem fetch_failure_is_empty_witness:
  "get_air_quality_data sample_pandas
     (Body (JObj [(''error'', JBool True), (''reason'', JStr ''bad request'')])) = empty_frame \<and>
   get_air_quality_data sample_pandas
     (Body (JObj [(''hourly'', JObj [(''time'', JArr [])])])) = empty_frame"
proof -
  have a: "''hourly'' \<notin> fst ` set [(''error'', JBool True), (''reason'', JStr ''bad request'')]"
    by simp
  have b: "try_body sample_pandas (Body (JObj [(''hourly'', JObj [(''time'', JArr [])])]))
      = Inl KeyError"
    by (simp add: try_body_def)
  from a b
    fetch_failure_is_empty [of sample_pandas
      "[(''error'', JBool True), (''reason'', JStr ''bad request'')]"
      "Body (JObj [(''hourly'', JObj [(''time'', JArr [])])])"]
  show ?thesis by blast
qed

text \<open>
  C2 as stated fails: with one \<open>time\<close> entry, two \<open>carbon_dioxide\<close> entries and one
  \<open>methane\<close> entry the shorter gas array has length 1, but \<open>pd.DataFrame\<close> raises on
  the unequal lengths and the fetcher returns the empty table, of length 0.
\<close>

theorem fetch_length_counterexample:
  "nrows (get_air_quality_data sample_pandas
     (Body (JObj [(''hourly'', JObj
        [(''time'', JArr [JNum 5]),
         (''carbon_dioxide'', JArr [JNum 420, JNum 421]),
         (''methane'', JArr [JNum 1900])])]))) = 0 \<and>
   min (length [JNum 420, JNum 421]) (length [JNum 1900]) = Suc 0"
  by (simp add: get_air_quality_data_def try_body_def DataFrame_def sample_pandas_def
      empty_frame_def)

text \<open>
  C2, amended. For a payload whose \<open>hourly\<close> object holds the lists \<open>time\<close>,
  \<open>carbon_dioxide\<close> and \<open>methane\<close>: when the three lists have one common length and
  every \<open>time\<close> element parses, the fetcher returns the table of that length whose
  i-th row is the parse of the i-th \<open>time\<close> element with the i-th CO2 and CH4 entries;
  otherwise (lengths differ, or an element does not parse) it returns the empty table.
\<close>

theorem fetch_equal_length_arrays:
  assumes "map_of kvs ''hourly'' = Some (JObj hourly)"
    and "map_of hourly ''time'' = Some (JArr time)"
    and "map_of hourly ''carbon_dioxide'' = Some (JArr co2)"
    and "map_of hourly ''methane'' = Some (JArr ch4)"
  shows "(length time = length co2 \<and> length co2 = length ch4 \<and>
          list_all (\<lambda>x. parse_time pd x \<noteq> None) time \<longrightarrow>
            get_air_quality_data pd (Body (JObj kvs)) =
              series_of (zip (map (\<lambda>x. the (parse_time pd x)) time) (zip co2 ch4)) \<and>
            nrows (get_air_quality_data pd (Body (JObj kvs))) = length co2 \<and>
            getcol (get_air_quality_data pd (Body (JObj kvs))) ''Waktu'' =
              Inr (DatetimeCol (map (\<lambda>x. the (parse_time pd x)) time))) \<and>
         (\<not> (length time = length co2 \<and> length co2 = length ch4 \<and>
             list_all (\<lambda>x. parse_time pd x \<noteq> None) time) \<longrightarrow>
            get_air_quality_data pd (Body (JObj kvs)) = empty_frame)"
proof -
  have body: "try_body pd (Body (JObj kvs)) = hourly_frame pd (JArr time) (JArr co2) (JArr ch4)"
    using assms by (simp add: try_body_hourly)
  show ?thesis
  proof (cases "length time = length co2 \<and> length co2 = length ch4 \<and>
                list_all (\<lambda>x. parse_time pd x \<noteq> None) time")
    case True
    with body have "try_body pd (Body (JObj kvs)) =
        Inr (series_of (zip (map (\<lambda>x. the (parse_time pd x)) time) (zip co2 ch4)))"
      by (simp only: hourly_frame_lists simp_thms if_True)
    then have eq: "get_air_quality_data pd (Body (JObj kvs)) =
        series_of (zip (map (\<lambda>x. the (parse_time pd x)) time) (zip co2 ch4))"
      by (simp add: get_air_quality_data_def)
    from True have "series_of (zip (map (\<lambda>x. the (parse_time pd x)) time) (zip co2 ch4)) =
        [(''Waktu'', DatetimeCol (map (\<lambda>x. the (parse_time pd x)) time)),
         (''CO2_ppm'', ValueCol co2), (''CH4_ppb'', ValueCol ch4)]"
      by (simp add: series_of_zip)
    with eq True show ?thesis
      by (simp add: getcol_def)
  next
    case False
    with body have "try_body pd (Body (JObj kvs)) = Inl ValueError"
      by (simp only: hourly_frame_lists if_False)
    then have "get_air_quality_data pd (Body (JObj kvs)) = empty_frame"
      by (simp add: get_air_quality_data_def)
    with False show ?thesis by blast
  qed
qed

theorem fetch_equal_length_arrays_witness:
  "get_air_quality_data sample_pandas
     (Body (JObj [(''hourly'', JObj
        [(''time'', JArr [JNum 5, JNum 7]),
         (''carbon_dioxide'', JArr [JNum 420, JNum 421]),
         (''methane'', JArr [JNum 1900, JNull])])]))
   = series_of [(5, JNum 420, JNum 1900), (7, JNum 421, JNull)] \<and>
   get_air_quality_data sample_pandas
     (Body (JObj [(''hourly'', JObj
        [(''time'', JArr [JNum 5]),
         (''carbon_dioxide'', JArr [JNum 420, JNum 421]),
         (''methane'', JArr [JNum 1900])])]))
   = empty_frame"
proof -
  let ?h1 = "[(''time'', JArr [JNum 5, JNum 7]),
         (''carbon_dioxide'', JArr [JNum 420, JNum 421]),
         (''methane'', JArr [JNum 1900, JNull])]"
  let ?h2 = "[(''time'', JArr [JNum 5]),
         (''carbon_dioxide'', JArr [JNum 420, JNum 421]),
         (''methane'', JArr [JNum 1900])]"
  have one: "get_air_quality_data sample_pandas (Body (JObj [(''hourly'', JObj ?h1)]))
      = series_of [(5, JNum 420, JNum 1900), (7, JNum 421, JNull)]"
    using fetch_equal_length_arrays [of "[(''hourly'', JObj ?h1)]" ?h1 "[JNum 5, JNum 7]"
        "[JNum 420, JNum 421]" "[JNum 1900, JNull]" sample_pandas]
    by (simp add: sample_pandas_def)
  have two: "get_air_quality_data sample_pandas (Body (JObj [(''hourly'', JObj ?h2)])) = empty_frame"
    using fetch_equal_length_arrays [of "[(''hourly'', JObj ?h2)]" ?h2 "[JNum 5]"
        "[JNum 420, JNum 421]" "[JNum 1900]" sample_pandas]
    by simp
  from one two show ?thesis by simp
qed

text \<open>
  C9. Whatever the fetcher returns has the three columns \<open>Waktu\<close>, \<open>CO2_ppm\<close>,
  \<open>CH4_ppb\<close>, in this order, and a view filter that returns a table returns one with
  the column names of its input.
\<close>

theorem table_columns_invariant:
  "map fst (get_air_quality_data pd resp) = [''Waktu'', ''CO2_ppm'', ''CH4_ppb''] \<and>
   (df_today today df = Inr df1 \<longrightarrow> map fst df1 = map fst df) \<and>
   (df_forecast now df = Inr df2 \<longrightarrow> map fst df2 = map fst df) \<and>
   (df_period start_date end_date df = Inr df3 \<longrightarrow> map fst df3 = map fst df)"
  using get_air_quality_data_names df_today_names df_forecast_names df_period_names
  by blast

theorem table_columns_invariant_witness:
  "map fst (get_air_quality_data sample_pandas BadBody) = [''Waktu'', ''CO2_ppm'', ''CH4_ppb''] \<and>
   map fst (series_of [(86400000000001, JNum 421, JNum 1901)]) =
     map fst (series_of [(5, JNum 420, JNum 1900), (86400000000001, JNum 421, JNum 1901)])"
proof -
  let ?df = "series_of [(5, JNum 420, JNum 1900), (86400000000001, JNum 421, JNum 1901)]"
  let ?df' = "series_of [(86400000000001, JNum 421, JNum 1901)]"
  have a: "df_today 1 ?df = Inr ?df'"
    by (simp add: df_today_series date_of_def)
  have b: "df_forecast 5 ?df = Inr ?df'"
    by (simp add: df_forecast_series)
  have c: "df_period 1 2 ?df = Inr ?df'"
    by (simp add: df_period_series date_of_def)
  from a b c
    table_columns_invariant [of sample_pandas BadBody 1 ?df ?df' 5 ?df' 1 2 ?df']
  show ?thesis by blast
qed

section \<open>What the view filters keep\<close>

text \<open>
  On a table of readings each view keeps exactly the rows its condition selects, in
  their order: the realtime view those dated today, the forecast view those later than
  now, the period view those dated from the start date to the end date.
\<close>

lemma view_filters_on_series:
  "df_today today (series_of rs) =
     Inr (series_of (filter (\<lambda>r. date_of (fst r) = today) rs)) \<and>
   df_forecast now (series_of rs) =
     Inr (series_of (filter (\<lambda>r. now < fst r) rs)) \<and>
   df_period start_date end_date (series_of rs) =
     Inr (series_of (filter (\<lambda>r. start_date \<le> date_of (fst r) \<and> date_of (fst r) \<le> end_date) rs))"
  by (simp add: df_today_series df_forecast_series df_period_series)

text \<open>
  C6. For each of the three views and every table: when the filter returns a table,
  the same filter applied to that table returns it unchanged.
\<close>

theorem view_filters_idempotent:
  "(df_today today df = Inr df1 \<longrightarrow> df_today today df1 = Inr df1) \<and>
   (df_forecast now df = Inr df2 \<longrightarrow> df_forecast now df2 = Inr df2) \<and>
   (df_period start_date end_date df = Inr df3 \<longrightarrow> df_period start_date end_date df3 = Inr df3)"
  using df_today_idem df_forecast_idem df_period_idem by blast

theorem view_filters_idempotent_witness:
  "df_today 1 (series_of [(86400000000001, JNum 421, JNum 1901)]) =
     Inr (series_of [(86400000000001, JNum 421, JNum 1901)]) \<and>
   df_forecast 5 (series_of [(86400000000001, JNum 421, JNum 1901)]) =
     Inr (series_of [(86400000000001, JNum 421, JNum 1901)]) \<and>
   df_period 1 2 (series_of [(86400000000001, JNum 421, JNum 1901)]) =
     Inr (series_of [(86400000000001, JNum 421, JNum 1901)])"
proof -
  let ?df = "series_of [(5, JNum 420, JNum 1900), (86400000000001, JNum 421, JNum 1901)]"
  let ?df' = "series_of [(86400000000001, JNum 421, JNum 1901)]"
  have a: "df_today 1 ?df = Inr ?df'"
    by (simp add: df_today_series date_of_def)
  have b: "df_forecast 5 ?df = Inr ?df'"
    by (simp add: df_forecast_series)
  have c: "df_period 1 2 ?df = Inr ?df'"
    by (simp add: df_period_series date_of_def)
  from a b c view_filters_idempotent [of 1 ?df ?df' 5 ?df' 1 2 ?df']
  show ?thesis by blast
qed

text \<open>
  C7 at a failed fetch. The table the fetcher returns on failure has a \<open>Waktu\<close> column
  that is not datetime-typed, so \<open>df["Waktu"].dt\<close> raises in the realtime view and in
  the period view: no filtered table reaches \<open>plot_graph\<close>, whose branch for an empty
  table ("Tidak ada data tersedia.") is therefore never taken on this path.
\<close>

theorem date_filters_raise_on_failed_fetch:
  "df_today today (get_air_quality_data pd TransportError) = Inl AttributeError \<and>
   df_today today (get_air_quality_data pd BadBody) = Inl AttributeError \<and>
   df_today today (get_air_quality_data pd (Body (JObj []))) = Inl AttributeError \<and>
   df_period start_date end_date (get_air_quality_data pd TransportError) = Inl AttributeError \<and>
   df_period start_date end_date (get_air_quality_data pd (Body (JObj []))) = Inl AttributeError"
  by (simp add: get_air_quality_data_def try_body_def empty_frame_def df_today_def
      df_period_def getcol_def)

section \<open>What the export writes\<close>

text \<open>
  C8. The export of a table of readings is the header line \<open>Waktu,CO2_ppm,CH4_ppb\<close>
  followed by one line per reading, in order; for any table with the three columns the
  first line is that header and the number of lines is one more than the number of
  rows; the file is written whenever the dialog returns a path. The period view with
  start date = end date = today keeps a single reading dated today, and its export is
  exactly two lines.
\<close>

theorem csv_export_lines:
  "to_csv pd (series_of rs) = ''Waktu,CO2_ppm,CH4_ppb'' # map (row_line pd) rs \<and>
   (map fst df = [''Waktu'', ''CO2_ppm'', ''CH4_ppb''] \<longrightarrow>
      hd (to_csv pd df) = ''Waktu,CO2_ppm,CH4_ppb'' \<and> length (to_csv pd df) = Suc (nrows df)) \<and>
   (file_path \<noteq> [] \<longrightarrow> save_csv pd file_path df = Some (to_csv pd df)) \<and>
   (date_of t = today \<longrightarrow>
      df_period today today (series_of [(t, co2, ch4)]) = Inr (series_of [(t, co2, ch4)]) \<and>
      to_csv pd (series_of [(t, co2, ch4)]) =
        [''Waktu,CO2_ppm,CH4_ppb'', row_line pd (t, co2, ch4)] \<and>
      length (to_csv pd (series_of [(t, co2, ch4)])) = 2)"
  by (simp add: to_csv_series_of to_csv_header to_csv_length save_csv_def df_period_series)

theorem csv_export_lines_witness:
  "df_period 0 0 (series_of [(5, JNum 420, JNum 1900)]) = Inr (series_of [(5, JNum 420, JNum 1900)]) \<and>
   to_csv sample_pandas (series_of [(5, JNum 420, JNum 1900)]) = [''Waktu,CO2_ppm,CH4_ppb'', ''t,v,v''] \<and>
   length (to_csv sample_pandas (series_of [(5, JNum 420, JNum 1900)])) = 2 \<and>
   save_csv sample_pandas ''out.csv'' (series_of [(5, JNum 420, JNum 1900)]) =
     Some (to_csv sample_pandas (series_of [(5, JNum 420, JNum 1900)]))"
proof -
  have a: "date_of 5 = 0"
    by (simp add: date_of_def)
  have b: "map fst (series_of [(5, JNum 420, JNum 1900)]) = [''Waktu'', ''CO2_ppm'', ''CH4_ppb'']"
    by (simp add: series_of_def)
  have c: "''out.csv'' \<noteq> []"
    by simp
  have d: "row_line sample_pandas (5, JNum 420, JNum 1900) = ''t,v,v''"
    by (simp add: row_line_def sample_pandas_def)
  from a b c d
    csv_export_lines [of sample_pandas "[(5, JNum 420, JNum 1900)]"
      "series_of [(5, JNum 420, JNum 1900)]" "''out.csv''" 5 0 "JNum 420" "JNum 1900"]
  show ?thesis by simp
qed

end
